theory Spec2Isabelle
  imports Complex_Main
begin

section \<open>Python values of the dimension subsystem\<close>

text \<open>
  A Python \<open>str\<close> is a sequence of Unicode code points. The code splits strings on
  Unicode white space and compares tokens with the sentinel \<open>U+221E\<close>, so a string is
  modelled as the list of its code points.
\<close>

type_synonym pystr = "nat list"

definition str :: "string \<Rightarrow> pystr" where
  "str s = map of_char s"

text \<open>
  The numerical payload of a quantity is a double. Doubles are idealised as the real
  numbers together with the three special values the code can produce or compare with
  (\<open>numpy.inf\<close> is written by the code itself).
\<close>

datatype float64 = Fin real | PInf | NInf | NaN

text \<open>\<open>x == 0.0\<close> and \<open>x < 0.0\<close> on doubles: a comparison with NaN is false.\<close>

fun is_zero :: "float64 \<Rightarrow> bool" where
  "is_zero (Fin r) = (r = 0)"
| "is_zero PInf = False"
| "is_zero NInf = False"
| "is_zero NaN = False"

fun is_negative :: "float64 \<Rightarrow> bool" where
  "is_negative (Fin r) = (r < 0)"
| "is_negative PInf = False"
| "is_negative NInf = True"
| "is_negative NaN = False"

text \<open>The product of an integer index with a double, as \<open>_index * _increment\<close> forms it.\<close>

fun times_index :: "int \<Rightarrow> float64 \<Rightarrow> float64" where
  "times_index j (Fin r) = Fin (of_int j * r)"
| "times_index j PInf = (if j = 0 then NaN else if 0 < j then PInf else NInf)"
| "times_index j NInf = (if j = 0 then NaN else if 0 < j then NInf else PInf)"
| "times_index j NaN = NaN"

text \<open>
  Units belong to the external unit library and are opaque here: a unit is identified by
  its name. A quantity is a value with a unit, a quantity array a list of values with one
  unit.
\<close>

datatype unit_name = Unit string

record Quantity =
  qvalue :: float64
  qunit :: unit_name

record QuantityArray =
  avalues :: "float64 list"
  aunit :: unit_name

datatype pyval =
    PNone
  | PBool bool
  | PInt int
  | PFloat float64
  | PStr pystr
  | PList "pyval list"

datatype error =
    TypeError
  | ValueError
  | AttributeError
  | IndexError
  | UnboundLocalError
  | NotImplementedError
  | PyException string
  | LibraryError string

section \<open>\<open>BaseIndependentVariable\<close> and \<open>DimensionWithLinearSpacing\<close>\<close>

text \<open>
  The slots of \<open>BaseIndependentVariable\<close>. \<open>ReciprocalVariable\<close> adds nothing to them.
  The slot \<open>_equivalencies\<close> is written by \<open>_to\<close> only; it is \<open>None\<close> while unassigned.
  \<open>_set_parameters\<close> passes the label through the \<open>label\<close> setter.
\<close>

record BaseIndependentVariable =
  reference_offset :: Quantity
  origin_offset :: Quantity
  quantity :: "pystr option"
  period :: Quantity
  label :: pystr
  equivalencies :: "pyval option"
  unit :: unit_name

text \<open>
  \<open>DimensionWithLinearSpacing\<close> inherits the base slots and adds its own. The slots
  \<open>_reciprocal_number_of_points\<close> and \<open>_reciprocal_increment\<close> are declared but never
  assigned by the class and are left out.
\<close>

record DimensionWithLinearSpacing = BaseIndependentVariable +
  number_of_points :: int
  increment :: Quantity
  fft_output_order :: bool
  reciprocal :: BaseIndependentVariable
  coordinates :: QuantityArray

subsection \<open>\<open>_swap\<close>\<close>

text \<open>
  \<open>_swap\<close> is six tuple assignments \<open>a, b = b, a\<close> in a row, one for each field. Each is
  modelled by its own exchange and \<open>swap\<close> runs them in the order of the source.
\<close>

definition swap_reference_offset :: "DimensionWithLinearSpacing \<Rightarrow> DimensionWithLinearSpacing" where
  "swap_reference_offset d =
     d\<lparr>reference_offset := reference_offset (reciprocal d),
       reciprocal := (reciprocal d)\<lparr>reference_offset := reference_offset d\<rparr>\<rparr>"

definition swap_origin_offset :: "DimensionWithLinearSpacing \<Rightarrow> DimensionWithLinearSpacing" where
  "swap_origin_offset d =
     d\<lparr>origin_offset := origin_offset (reciprocal d),
       reciprocal := (reciprocal d)\<lparr>origin_offset := origin_offset d\<rparr>\<rparr>"

definition swap_period :: "DimensionWithLinearSpacing \<Rightarrow> DimensionWithLinearSpacing" where
  "swap_period d =
     d\<lparr>period := period (reciprocal d),
       reciprocal := (reciprocal d)\<lparr>period := period d\<rparr>\<rparr>"

definition swap_quantity :: "DimensionWithLinearSpacing \<Rightarrow> DimensionWithLinearSpacing" where
  "swap_quantity d =
     d\<lparr>quantity := quantity (reciprocal d),
       reciprocal := (reciprocal d)\<lparr>quantity := quantity d\<rparr>\<rparr>"

definition swap_label :: "DimensionWithLinearSpacing \<Rightarrow> DimensionWithLinearSpacing" where
  "swap_label d =
     d\<lparr>label := label (reciprocal d),
       reciprocal := (reciprocal d)\<lparr>label := label d\<rparr>\<rparr>"

definition swap_unit :: "DimensionWithLinearSpacing \<Rightarrow> DimensionWithLinearSpacing" where
  "swap_unit d =
     d\<lparr>unit := unit (reciprocal d),
       reciprocal := (reciprocal d)\<lparr>unit := unit d\<rparr>\<rparr>"

definition swap :: "DimensionWithLinearSpacing \<Rightarrow> DimensionWithLinearSpacing" where
  "swap d =
     swap_unit (swap_label (swap_quantity (swap_period
       (swap_origin_offset (swap_reference_offset d)))))"

subsection \<open>The helpers of \<open>_utils\<close> and the unit library\<close>

text \<open>
  The helper modules (\<open>_utils\<close>, \<open>_studium\<close>) and the unit library are not among the
  sources. The functions the modelled code calls are taken as parameters: each either
  returns its result or raises. Next to the helpers the record holds the arithmetic of
  the unit library on quantities:
  \<^item> \<open>quantity_to q u\<close> is \<open>q.to(u)\<close>;
  \<^item> \<open>quantity_plus a b\<close> is \<open>a + b\<close> on two quantities;
  \<^item> \<open>array_plus xs q\<close> is \<open>xs + q\<close> on an array and a quantity;
  \<^item> \<open>ratio_to_ppm xs q\<close> is \<open>(xs / q).to(_ppm)\<close>;
  \<^item> \<open>product_to xs q u\<close> is \<open>(xs * q).to(u)\<close>.
\<close>

record units_library =
  assign_and_check_unit_consistency :: "pystr \<Rightarrow> unit_name \<Rightarrow> error + Quantity"
  check_value_object :: "pyval \<Rightarrow> unit_name \<Rightarrow> error + Quantity"
  check_quantity :: "pyval \<Rightarrow> unit_name \<Rightarrow> error + pystr option"
  check_and_assign_bool :: "pyval \<Rightarrow> error + bool"
  quantity_to :: "Quantity \<Rightarrow> unit_name \<Rightarrow> error + Quantity"
  quantity_plus :: "Quantity \<Rightarrow> Quantity \<Rightarrow> error + Quantity"
  array_plus :: "QuantityArray \<Rightarrow> Quantity \<Rightarrow> error + QuantityArray"
  ratio_to_ppm :: "QuantityArray \<Rightarrow> Quantity \<Rightarrow> error + QuantityArray"
  product_to :: "QuantityArray \<Rightarrow> Quantity \<Rightarrow> unit_name \<Rightarrow> error + QuantityArray"

subsection \<open>\<open>str.strip\<close> and \<open>str.split\<close>\<close>

text \<open>The code points for which \<open>str.isspace\<close> holds.\<close>

definition is_space :: "nat \<Rightarrow> bool" where
  "is_space c =
     ((9 \<le> c \<and> c \<le> 13) \<or> (28 \<le> c \<and> c \<le> 32) \<or> c = 133 \<or> c = 160 \<or> c = 5760
      \<or> (8192 \<le> c \<and> c \<le> 8202) \<or> c = 8232 \<or> c = 8233 \<or> c = 8239 \<or> c = 8287
      \<or> c = 12288)"

definition strip :: "pystr \<Rightarrow> pystr" where
  "strip s = rev (dropWhile is_space (rev (dropWhile is_space s)))"

text \<open>
  \<open>s.split()\<close> without arguments: the maximal runs of characters that are not white
  space. \<open>cur\<close> is the token being read.
\<close>

fun split_from :: "pystr \<Rightarrow> pystr \<Rightarrow> pystr list" where
  "split_from cur [] = (if cur = [] then [] else [cur])"
| "split_from cur (c # cs) =
     (if is_space c then (if cur = [] then split_from [] cs else cur # split_from [] cs)
      else split_from (cur @ [c]) cs)"

definition split :: "pystr \<Rightarrow> pystr list" where
  "split s = split_from [] s"

text \<open>\<open>xs[0]\<close> raises \<open>IndexError\<close> on an empty list.\<close>

definition first_item :: "'a list \<Rightarrow> error + 'a" where
  "first_item xs = (case xs of [] \<Rightarrow> Inl IndexError | x # _ \<Rightarrow> Inr x)"

text \<open>The list \<open>lst\<close> of the period setters; the last entry is \<open>U+221E\<close>.\<close>

definition infinity_sentinels :: "pystr list" where
  "infinity_sentinels = [str ''inf'', str ''Inf'', str ''infinity'', str ''Infinity'', [8734]]"

subsection \<open>Construction and setters of \<open>BaseIndependentVariable\<close>\<close>

text \<open>
  \<open>_set_parameters\<close> is called by the constructors only, on the object under
  construction; the model returns the base slots it assigns, or the error that ends the
  construction. The label goes through the \<open>label\<close> setter, which takes strings only.
\<close>

definition label_value :: "pyval \<Rightarrow> error + pystr" where
  "label_value lbl = (case lbl of PStr l \<Rightarrow> Inr l | _ \<Rightarrow> Inl TypeError)"

definition set_parameters ::
  "units_library \<Rightarrow> pyval \<Rightarrow> pyval \<Rightarrow> pyval \<Rightarrow> pyval \<Rightarrow> pyval \<Rightarrow> unit_name
     \<Rightarrow> error + BaseIndependentVariable" where
  "set_parameters lib ref_off orig_off quant per lbl u =
     (case check_value_object lib ref_off u of Inl e \<Rightarrow> Inl e | Inr v_ref \<Rightarrow>
     (case check_value_object lib orig_off u of Inl e \<Rightarrow> Inl e | Inr v_orig \<Rightarrow>
     (case check_value_object lib per u of Inl e \<Rightarrow> Inl e | Inr v_per \<Rightarrow>
     (let v_period = (if is_zero (qvalue v_per)
                      then \<lparr>qvalue = PInf, qunit = qunit v_per\<rparr> else v_per) in
     (case check_quantity lib quant u of Inl e \<Rightarrow> Inl e | Inr v_quant \<Rightarrow>
     (case label_value lbl of Inl e \<Rightarrow> Inl e | Inr l \<Rightarrow>
        Inr \<lparr>reference_offset = v_ref, origin_offset = v_orig, quantity = v_quant,
             period = v_period, label = l, equivalencies = None, unit = u\<rparr>))))))"

text \<open>
  A setter returns the error it raised, if any, together with the object as the call
  leaves it. The setters are inherited, so they are defined on every extension of the
  base record.
\<close>

definition reference_offset_setter ::
  "units_library \<Rightarrow> pyval \<Rightarrow> 'a BaseIndependentVariable_scheme
     \<Rightarrow> error option \<times> 'a BaseIndependentVariable_scheme" where
  "reference_offset_setter lib v d =
     (case v of
        PStr s \<Rightarrow>
          (case assign_and_check_unit_consistency lib s (unit d) of
             Inl e \<Rightarrow> (Some e, d)
           | Inr q \<Rightarrow> (None, d\<lparr>reference_offset := q\<rparr>))
      | _ \<Rightarrow> (Some TypeError, d))"

definition period_setter ::
  "units_library \<Rightarrow> pyval \<Rightarrow> 'a BaseIndependentVariable_scheme
     \<Rightarrow> error option \<times> 'a BaseIndependentVariable_scheme" where
  "period_setter lib v d =
     (case v of
        PStr s \<Rightarrow>
          (case first_item (split (strip s)) of
             Inl e \<Rightarrow> (Some e, d)
           | Inr token \<Rightarrow>
               if token \<in> set infinity_sentinels
               then (None, d\<lparr>period := \<lparr>qvalue = PInf, qunit = unit d\<rparr>\<rparr>)
               else (case check_value_object lib (PStr s) (unit d) of
                       Inl e \<Rightarrow> (Some e, d)
                     | Inr q \<Rightarrow> (None, d\<lparr>period := q\<rparr>)))
      | _ \<Rightarrow> (Some TypeError, d))"

subsection \<open>\<open>_get_coordinates\<close> and the setters of \<open>DimensionWithLinearSpacing\<close>\<close>

text \<open>\<open>numpy.arange(a, b)\<close> on integers: \<open>a, a+1, \<dots>, b-1\<close>, empty when \<open>b \<le> a\<close>.\<close>

definition arange :: "int \<Rightarrow> int \<Rightarrow> int list" where
  "arange a b = [a..b - 1]"

text \<open>
  \<open>numpy.empty(n)\<close> raises \<open>ValueError\<close> for a negative size. The cells it returns are
  uninitialised; the model fills them with 0.
\<close>

definition np_empty :: "int \<Rightarrow> error + int list" where
  "np_empty n = (if n < 0 then Inl ValueError else Inr (replicate (nat n) 0))"

text \<open>A slice bound of Python, clipped to the length of the array.\<close>

definition slice_bound :: "nat \<Rightarrow> int \<Rightarrow> nat" where
  "slice_bound len i = (if i < 0 then nat (max 0 (int len + i)) else min len (nat i))"

text \<open>
  \<open>a[lo:hi] = src\<close> on a one-dimensional array (\<open>None\<close> for an omitted bound): the
  source must have the length of the slice, or length one, which is broadcast.
\<close>

definition assign_slice ::
  "int list \<Rightarrow> int option \<Rightarrow> int option \<Rightarrow> int list \<Rightarrow> error + int list" where
  "assign_slice a lo hi src =
     (let n = length a;
          l = (case lo of None \<Rightarrow> 0 | Some i \<Rightarrow> slice_bound n i);
          h = (case hi of None \<Rightarrow> n | Some i \<Rightarrow> slice_bound n i);
          k = h - l
      in if length src = k then Inr (take l a @ src @ drop (l + k) a)
         else if length src = 1 then Inr (take l a @ replicate k (hd src) @ drop (l + k) a)
         else Inl ValueError)"

text \<open>The index array of \<open>_get_coordinates\<close> when \<open>_fft_output_order\<close> is set.\<close>

definition fft_index :: "int \<Rightarrow> error + int list" where
  "fft_index N =
     (case np_empty N of
        Inl e \<Rightarrow> Inl e
      | Inr index0 \<Rightarrow>
          (let n = (N - 1) div 2 + 1;
               p1 = arange 0 n
           in (case assign_slice index0 None (Some n) p1 of
                 Inl e \<Rightarrow> Inl e
               | Inr index1 \<Rightarrow>
                   (let p2 = arange (- (N div 2)) 0
                    in assign_slice index1 (Some n) None p2))))"

definition get_coordinates ::
  "units_library \<Rightarrow> DimensionWithLinearSpacing \<Rightarrow> error option \<times> DimensionWithLinearSpacing" where
  "get_coordinates lib d =
     (case quantity_to lib (increment d) (unit d) of
        Inl e \<Rightarrow> (Some e, d)
      | Inr inc \<Rightarrow>
          (case (if fft_output_order d then fft_index (number_of_points d)
                 else Inr (arange 0 (number_of_points d))) of
             Inl e \<Rightarrow> (Some e, d)
           | Inr index \<Rightarrow>
               (None, d\<lparr>coordinates :=
                          \<lparr>avalues = map (\<lambda>j. times_index j (qvalue inc)) index,
                           aunit = qunit inc\<rparr>\<rparr>)))"

definition increment_setter ::
  "units_library \<Rightarrow> pyval \<Rightarrow> DimensionWithLinearSpacing
     \<Rightarrow> error option \<times> DimensionWithLinearSpacing" where
  "increment_setter lib v d =
     (case v of
        PStr s \<Rightarrow>
          (case assign_and_check_unit_consistency lib s (unit d) of
             Inl e \<Rightarrow> (Some e, d)
           | Inr q \<Rightarrow>
               if is_negative (qvalue q) then (Some ValueError, d)
               else get_coordinates lib (d\<lparr>increment := q\<rparr>))
      | _ \<Rightarrow> (Some TypeError, d))"

definition FFT_output_order_setter ::
  "units_library \<Rightarrow> pyval \<Rightarrow> DimensionWithLinearSpacing
     \<Rightarrow> error option \<times> DimensionWithLinearSpacing" where
  "FFT_output_order_setter lib v d =
     (case v of
        PBool b \<Rightarrow> get_coordinates lib (d\<lparr>fft_output_order := b\<rparr>)
      | _ \<Rightarrow> (Some TypeError, d))"

text \<open>The difference of two doubles, as \<open>x - c\<close> forms it.\<close>

fun minus_float :: "float64 \<Rightarrow> float64 \<Rightarrow> float64" where
  "minus_float (Fin a) (Fin b) = Fin (a - b)"
| "minus_float NaN y = NaN"
| "minus_float x NaN = NaN"
| "minus_float PInf PInf = NaN"
| "minus_float NInf NInf = NaN"
| "minus_float PInf y = PInf"
| "minus_float NInf y = NInf"
| "minus_float x PInf = NInf"
| "minus_float x NInf = PInf"

text \<open>
  Modelled from the spec: the read accessor \<open>coordinates\<close> of a linear dimension is not
  among the sources. \<open>DimensionWithLinearSpacing\<close> only keeps the array \<open>_coordinates\<close>
  that \<open>_get_coordinates\<close> stores; the code that reads it for a caller is in a module
  that is absent. By the specification the reference coordinates are
  \<open>X = j*m - reference_offset\<close> and the accessor has no side effect: it subtracts the
  reference offset, expressed in the unit of the stored array, from every stored value.
\<close>

definition reference_coordinates ::
  "units_library \<Rightarrow> DimensionWithLinearSpacing \<Rightarrow> error + QuantityArray" where
  "reference_coordinates lib d =
     (case quantity_to lib (reference_offset d) (aunit (coordinates d)) of
        Inl e \<Rightarrow> Inl e
      | Inr c \<Rightarrow>
          Inr \<lparr>avalues = map (\<lambda>x. minus_float x (qvalue c)) (avalues (coordinates d)),
               aunit = aunit (coordinates d)\<rparr>)"

text \<open>
  The index sequence as the specification words it for the FFT order:
  \<open>[0, 1, \<dots>, n-1, -(N-\<lfloor>N/2\<rfloor>), \<dots>, -1]\<close> with \<open>n = \<lfloor>(N-1)/2\<rfloor> + 1\<close>.
\<close>

definition spec_fft_index :: "int \<Rightarrow> int list" where
  "spec_fft_index N = arange 0 ((N - 1) div 2 + 1) @ arange (- (N - N div 2)) 0"

section \<open>The facade \<open>ControlledVariable\<close>\<close>

subsection \<open>Selection of the variant in \<open>__init__\<close>\<close>

text \<open>
  \<open>dictionary\<close> is the dictionary of defaults after the keys of the input have been
  copied into it: every recognised key is present.
\<close>

type_synonym dictionary = "string \<Rightarrow> pyval"

definition default_dictionary :: dictionary where
  "default_dictionary =
     (\<lambda>k. if k = ''sampling_type'' then PStr (str ''grid'')
          else if k = ''non_quantitative'' then PBool False
          else if k = ''made_dimensionless'' then PBool False
          else if k = ''reverse'' then PBool False
          else if k = ''fft_output_order'' then PBool False
          else if k = ''label'' then PStr []
          else PNone)"

text \<open>The truth value of a Python value, as \<open>if\<close> tests it.\<close>

fun truthy :: "pyval \<Rightarrow> bool" where
  "truthy PNone = False"
| "truthy (PBool b) = b"
| "truthy (PInt i) = (i \<noteq> 0)"
| "truthy (PFloat x) = (\<not> is_zero x)"
| "truthy (PStr s) = (s \<noteq> [])"
| "truthy (PList xs) = (xs \<noteq> [])"

text \<open>The two messages of the checks (the quotation marks around the key names left out).\<close>

definition values_required :: string where
  "values_required = ''values key is required for non-quantitative dimension.''"

definition either_required :: string where
  "either_required =
     ''either number_of_points, sampling_interval or values key is required.''"

definition check_non_quantitative :: "dictionary \<Rightarrow> error + bool" where
  "check_non_quantitative d =
     (if truthy (d ''non_quantitative'')
      then (if d ''values'' = PNone then Inl (PyException values_required) else Inr True)
      else Inr False)"

definition check_quantitative :: "dictionary \<Rightarrow> error + bool" where
  "check_quantitative d =
     (case check_non_quantitative d of
        Inl e \<Rightarrow> Inl e
      | Inr nq \<Rightarrow>
          if \<not> nq
          then (if d ''number_of_points'' = PNone \<and> d ''sampling_interval'' = PNone
                   \<and> d ''values'' = PNone
                then Inl (PyException either_required) else Inr True)
          else Inr False)"

definition check_quantitative_linear :: "dictionary \<Rightarrow> error + bool" where
  "check_quantitative_linear d =
     (case check_quantitative d of
        Inl e \<Rightarrow> Inl e
      | Inr q \<Rightarrow> Inr (q \<and> d ''number_of_points'' \<noteq> PNone \<and> d ''sampling_interval'' \<noteq> PNone))"

definition check_quantitative_arbitrary :: "dictionary \<Rightarrow> error + bool" where
  "check_quantitative_arbitrary d =
     (case check_quantitative d of
        Inl e \<Rightarrow> Inl e
      | Inr q \<Rightarrow> Inr (q \<and> d ''values'' \<noteq> PNone))"

text \<open>
  One of the three \<open>if\<close> statements of \<open>__init__\<close>: when the test holds, the constructor
  runs and its object is bound to the local variable \<open>_gcv_object\<close> (\<open>None\<close> while the
  variable is unbound).
\<close>

definition build_if ::
  "error + bool \<Rightarrow> (dictionary \<Rightarrow> error + 'g) \<Rightarrow> dictionary \<Rightarrow> 'g option \<Rightarrow> error + 'g option" where
  "build_if test constructor d gcv_object =
     (case test of
        Inl e \<Rightarrow> Inl e
      | Inr b \<Rightarrow>
          if b then (case constructor d of Inl e \<Rightarrow> Inl e | Inr g \<Rightarrow> Inr (Some g))
          else Inr gcv_object)"

text \<open>
  The constructors of the three variant classes are not among the sources and are
  parameters. The last statement reads \<open>_gcv_object\<close>, which raises \<open>UnboundLocalError\<close>
  when none of the three \<open>if\<close> statements has bound it.
\<close>

definition ControlledVariable_init ::
  "(dictionary \<Rightarrow> error + 'g) \<Rightarrow> (dictionary \<Rightarrow> error + 'g) \<Rightarrow> (dictionary \<Rightarrow> error + 'g)
     \<Rightarrow> dictionary \<Rightarrow> error + 'g" where
  "ControlledVariable_init NonQuantitativeDimension ArbitrarilySampledDimension
       LinearlySampledDimension d =
     (case build_if (check_non_quantitative d) NonQuantitativeDimension d None of
        Inl e \<Rightarrow> Inl e
      | Inr g1 \<Rightarrow>
     (case build_if (check_quantitative_arbitrary d) ArbitrarilySampledDimension d g1 of
        Inl e \<Rightarrow> Inl e
      | Inr g2 \<Rightarrow>
     (case build_if (check_quantitative_linear d) LinearlySampledDimension d g2 of
        Inl e \<Rightarrow> Inl e
      | Inr g3 \<Rightarrow>
     (case g3 of None \<Rightarrow> Inl UnboundLocalError | Some g \<Rightarrow> Inr g))))"

subsection \<open>The variant object behind the facade\<close>

definition linear_type :: string where
  "linear_type = ''Linearly sampled grid controlled variable''"

definition arbitrary_type :: string where
  "arbitrary_type = ''Arbitrarily sampled grid controlled variable''"

definition quantitative_variable_types :: "string list" where
  "quantitative_variable_types = [linear_type, arbitrary_type]"

text \<open>
  Modelled from the spec: the classes \<open>_LinearlySampledDimension\<close>,
  \<open>_ArbitrarilySampledDimension\<close> and \<open>_NonQuantitativeDimension\<close> that the facade wraps
  are not among the sources. The record holds the attributes of the wrapped object that
  the modelled accessors of the facade read and write.
\<close>

record gcv_object =
  variable_type :: string
  g_number_of_points :: int
  g_values :: "pyval list"
  g_coordinates :: QuantityArray
  g_unit :: unit_name
  g_origin_offset :: Quantity
  g_period :: Quantity
  g_reciprocal_coordinates :: QuantityArray
  g_reciprocal_reference_offset :: Quantity
  g_reciprocal_origin_offset :: Quantity

subsection \<open>\<open>number_of_points\<close>\<close>

text \<open>
  \<open>isinstance(value, int)\<close>: \<open>bool\<close> is a subclass of \<open>int\<close>, and \<open>True\<close> compares and is
  stored as 1, \<open>False\<close> as 0.
\<close>

fun int_value :: "pyval \<Rightarrow> int option" where
  "int_value (PInt i) = Some i"
| "int_value (PBool b) = Some (if b then 1 else 0)"
| "int_value v = None"

text \<open>The warning of the setter, with the two numbers of its message.\<close>

datatype warning = CoordinatesTruncated int int

text \<open>
  Modelled from the spec: the method \<open>set_attribute\<close> of the wrapped classes is not among
  the sources. For the slot \<open>_number_of_points\<close> it follows the words of the
  specification: reducing the count of an arbitrarily sampled or labeled dimension
  truncates the values array, which keeps its first entries. The coordinates of these
  dimensions are formed from the values entry by entry and are cut with them. A count
  that is not below the length leaves both arrays as they are.
\<close>

definition set_number_of_points :: "int \<Rightarrow> gcv_object \<Rightarrow> gcv_object" where
  "set_number_of_points n g =
     g\<lparr>g_number_of_points := n,
       g_values := take (nat n) (g_values g),
       g_coordinates :=
         \<lparr>avalues = take (nat n) (avalues (g_coordinates g)),
          aunit = aunit (g_coordinates g)\<rparr>\<rparr>"

text \<open>
  The setter returns the error raised, the warnings issued and the wrapped object. For a
  linear dimension it ends with \<open>gcv._get_coordinates()\<close> of the wrapped class, which is
  the parameter \<open>recompute\<close>.
\<close>

definition number_of_points_setter ::
  "(gcv_object \<Rightarrow> error option \<times> gcv_object) \<Rightarrow> pyval \<Rightarrow> gcv_object
     \<Rightarrow> error option \<times> warning list \<times> gcv_object" where
  "number_of_points_setter recompute v g =
     (case int_value v of
        None \<Rightarrow> (Some TypeError, [], g)
      | Some n \<Rightarrow>
          if n \<le> 0 then (Some ValueError, [], g)
          else if variable_type g \<noteq> linear_type
          then (if n > g_number_of_points g then (Some ValueError, [], g)
                else (None,
                      (if n < g_number_of_points g
                       then [CoordinatesTruncated (g_number_of_points g) n] else []),
                      set_number_of_points n g))
          else (case recompute (set_number_of_points n g) of (e, g') \<Rightarrow> (e, [], g')))"

text \<open>The getter of \<open>values\<close>.\<close>

definition values_getter :: "gcv_object \<Rightarrow> error + pyval list" where
  "values_getter g =
     (if variable_type g = linear_type then Inl AttributeError else Inr (g_values g))"

subsection \<open>Coordinate and offset accessors\<close>

text \<open>\<open>a in b\<close> on two strings: \<open>a\<close> occurs in \<open>b\<close> as a contiguous substring.\<close>

fun is_substring :: "'a list \<Rightarrow> 'a list \<Rightarrow> bool" where
  "is_substring xs [] = (xs = [])"
| "is_substring xs (y # ys) = (take (length xs) (y # ys) = xs \<or> is_substring xs ys)"

definition absolute_coordinates :: "units_library \<Rightarrow> gcv_object \<Rightarrow> error + QuantityArray" where
  "absolute_coordinates lib g =
     (if variable_type g \<in> set quantitative_variable_types
      then (case quantity_to lib (g_origin_offset g) (g_unit g) of
              Inl e \<Rightarrow> Inl e
            | Inr off \<Rightarrow> array_plus lib (g_coordinates g) off)
      else Inl AttributeError)"

definition reciprocal_coordinates :: "gcv_object \<Rightarrow> error + QuantityArray" where
  "reciprocal_coordinates g =
     (if is_substring (variable_type g) linear_type
      then Inr (g_reciprocal_coordinates g)
      else Inl AttributeError)"

definition reciprocal_reference_offset :: "gcv_object \<Rightarrow> error + Quantity" where
  "reciprocal_reference_offset g =
     (if variable_type g \<in> set quantitative_variable_types
      then Inr (g_reciprocal_reference_offset g)
      else Inl AttributeError)"

definition reciprocal_origin_offset :: "gcv_object \<Rightarrow> error + Quantity" where
  "reciprocal_origin_offset g =
     (if variable_type g \<in> set quantitative_variable_types
      then Inr (g_reciprocal_origin_offset g)
      else Inl AttributeError)"

subsection \<open>\<open>period\<close>\<close>

definition ControlledVariable_period_setter ::
  "units_library \<Rightarrow> pyval \<Rightarrow> gcv_object \<Rightarrow> error option \<times> gcv_object" where
  "ControlledVariable_period_setter lib v g =
     (if variable_type g \<in> set quantitative_variable_types
      then (case v of
              PStr s \<Rightarrow>
                (case first_item (split (strip s)) of
                   Inl e \<Rightarrow> (Some e, g)
                 | Inr token \<Rightarrow>
                     if token \<in> set infinity_sentinels
                     then (None, g\<lparr>g_period := \<lparr>qvalue = PInf, qunit = g_unit g\<rparr>\<rparr>)
                     else (case check_value_object lib (PStr s) (g_unit g) of
                             Inl e \<Rightarrow> (Some e, g)
                           | Inr q \<Rightarrow> (None, g\<lparr>g_period := q\<rparr>)))
            | _ \<Rightarrow> (Some TypeError, g))
      else (Some AttributeError, g))"

section \<open>\<open>_nonLinearQuantitativeControlledVariable\<close>\<close>

text \<open>The slots of the class, in the order of \<open>__slots__\<close>.\<close>

definition slots :: "string list" where
  "slots =
     [''_sampling_type'', ''_quantitative'', ''_quantity'', ''_number_of_points'',
      ''_coordinates'', ''_reference_offset'', ''_origin_offset'', ''_reverse'', ''_label'',
      ''_periodic'', ''_made_dimensionless'', ''_reciprocal_coordinates'',
      ''_reciprocal_quantity'', ''_reciprocal_number_of_points'',
      ''_reciprocal_origin_offset'', ''_reciprocal_reference_offset'',
      ''_reciprocal_reverse'', ''_reciprocal_label'', ''_reciprocal_periodic'',
      ''_reciprocal_made_dimensionless'', ''_unit'', ''_reciprocal_unit'',
      ''_absolute_coordinates'', ''_reciprocal_absolute_coordinates'']"

text \<open>
  The names that \<open>__class__.__dict__\<close> holds besides the descriptors of the slots: the
  attributes of the class body, \<open>__module__\<close> and \<open>__doc__\<close>.
\<close>

definition class_attributes :: "string list" where
  "class_attributes =
     [''__module__'', ''__slots__'', ''__init__'', ''setAttribute'', ''__delattr__'',
      ''__setattr__'', ''sampling_type'', ''quantitative'', ''periodic'',
      ''reciprocal_periodic'', ''quantity'', ''reciprocal_quantity'', ''unit'',
      ''reciprocal_unit'', ''label'', ''reciprocal_label'', ''made_dimensionless'',
      ''reciprocal_made_dimensionless'', ''reverse'', ''reciprocal_reverse'',
      ''reference_offset'', ''reciprocal_reference_offset'', ''origin_offset'',
      ''reciprocal_origin_offset'', ''number_of_points'', ''coordinates'',
      ''absolute_coordinates'', ''reciprocal_coordinates'',
      ''reciprocal_absolute_coordinates'', ''_dimensionlessConversion'', ''_info'',
      ''__str__'', ''_getCoordinates'', ''getJsonDictionary'', ''to'', ''__iadd__'',
      ''__isub__'', ''__doc__'']"

text \<open>The properties of the class that have a setter.\<close>

definition settable_properties :: "string list" where
  "settable_properties =
     [''periodic'', ''reciprocal_periodic'', ''quantity'', ''reciprocal_quantity'',
      ''label'', ''reciprocal_label'', ''made_dimensionless'',
      ''reciprocal_made_dimensionless'', ''reverse'', ''reciprocal_reverse'',
      ''reference_offset'', ''reciprocal_reference_offset'', ''origin_offset'',
      ''reciprocal_origin_offset'']"

text \<open>
  The slots of the dimension itself that the modelled methods read and write; the slots
  of the reciprocal and the descriptive ones are not touched by them.
\<close>

record nonLinearQuantitative =
  s_coordinates :: QuantityArray
  s_absolute_coordinates :: QuantityArray
  s_reference_offset :: Quantity
  s_origin_offset :: Quantity
  s_made_dimensionless :: bool
  s_unit :: unit_name

text \<open>
  A method returns the error raised, the lines printed and the object as the call
  leaves it.
\<close>

type_synonym outcome = "error option \<times> string list \<times> nonLinearQuantitative"

text \<open>
  \<open>__setattr__\<close> of the class, for an assignment \<open>self.name = value\<close>. The name of a slot is
  refused. The name of another key of \<open>__class__.__dict__\<close> is handed to \<open>setAttribute\<close>,
  which is \<open>object.__setattr__\<close>: on an object without instance dictionary it runs the
  setter of a property that has one and refuses every other class attribute (a
  read-only property, a method). Any other name is refused. \<open>fset\<close> is the table of the
  property setters of the class, by name.
\<close>

definition setattr ::
  "(string \<Rightarrow> pyval \<Rightarrow> nonLinearQuantitative \<Rightarrow> outcome) \<Rightarrow> string \<Rightarrow> pyval
     \<Rightarrow> nonLinearQuantitative \<Rightarrow> outcome" where
  "setattr fset name v s =
     (if name \<in> set slots then (Some AttributeError, [], s)
      else if name \<in> set (class_attributes @ slots)
      then (if name \<in> set settable_properties then fset name v s
            else (Some AttributeError, [], s))
      else (Some AttributeError, [], s))"

text \<open>The line of the zero denominator (without the two offsets it formats in).\<close>

definition zero_division_message :: string where
  "zero_division_message = ''Zero division encountered: No changes made.''"

text \<open>
  In the branch of the zero denominator the assignment
  \<open>self._made_dimensionless = _oldValue\<close> goes through \<open>__setattr__\<close>; the \<open>print\<close> is the
  statement after it.
\<close>

definition dimensionlessConversion ::
  "units_library \<Rightarrow> (string \<Rightarrow> pyval \<Rightarrow> nonLinearQuantitative \<Rightarrow> outcome) \<Rightarrow> unit_name \<Rightarrow> bool
     \<Rightarrow> nonLinearQuantitative \<Rightarrow> outcome" where
  "dimensionlessConversion lib fset u oldValue s =
     (case quantity_plus lib (s_origin_offset s) (s_reference_offset s) of
        Inl e \<Rightarrow> (Some e, [], s)
      | Inr denominator \<Rightarrow>
          if \<not> is_zero (qvalue denominator)
          then (if s_made_dimensionless s \<and> oldValue then (None, [], s)
                else if \<not> s_made_dimensionless s \<and> \<not> oldValue then (None, [], s)
                else if s_made_dimensionless s \<and> \<not> oldValue
                then (case ratio_to_ppm lib (s_coordinates s) denominator of
                        Inl e \<Rightarrow> (Some e, [], s)
                      | Inr v \<Rightarrow> (None, [], s\<lparr>s_coordinates := v\<rparr>))
                else (case product_to lib (s_coordinates s) denominator u of
                        Inl e \<Rightarrow> (Some e, [], s)
                      | Inr v \<Rightarrow> (None, [], s\<lparr>s_coordinates := v\<rparr>)))
          else (case setattr fset ''_made_dimensionless'' (PBool oldValue) s of
                  (Some e, out, s') \<Rightarrow> (Some e, out, s')
                | (None, out, s') \<Rightarrow> (None, out @ [zero_division_message], s')))"

definition made_dimensionless_setter ::
  "units_library \<Rightarrow> (string \<Rightarrow> pyval \<Rightarrow> nonLinearQuantitative \<Rightarrow> outcome) \<Rightarrow> pyval
     \<Rightarrow> nonLinearQuantitative \<Rightarrow> outcome" where
  "made_dimensionless_setter lib fset v s =
     (let oldValue = s_made_dimensionless s
      in (case check_and_assign_bool lib v of
            Inl e \<Rightarrow> (Some e, [], s)
          | Inr b \<Rightarrow>
              dimensionlessConversion lib fset (s_unit s) oldValue
                (s\<lparr>s_made_dimensionless := b\<rparr>)))"

section \<open>A small unit library and example objects\<close>

text \<open>
  The properties below are proved for every unit library. Their concrete instances are
  evaluated with the following small one: a quantity string is a decimal integer, white
  space and the name of the unit; a missing value is zero; a quantity converts to its
  own unit only and arithmetic needs equal units.
\<close>

fun number_of_digits :: "nat list \<Rightarrow> nat \<Rightarrow> nat option" where
  "number_of_digits [] acc = Some acc"
| "number_of_digits (c # cs) acc =
     (if 48 \<le> c \<and> c \<le> 57 then number_of_digits cs (10 * acc + (c - 48)) else None)"

definition read_integer :: "pystr \<Rightarrow> int option" where
  "read_integer s =
     (case s of
        [] \<Rightarrow> None
      | c # cs \<Rightarrow>
          if c = 45 then (if cs = [] then None
                          else map_option (\<lambda>n. - int n) (number_of_digits cs 0))
          else map_option int (number_of_digits (c # cs) 0))"

definition read_quantity :: "pystr \<Rightarrow> unit_name \<Rightarrow> error + Quantity" where
  "read_quantity s u =
     (case split (strip s) of
        [num, name] \<Rightarrow>
          (case read_integer num of
             None \<Rightarrow> Inl (LibraryError ''FormatError'')
           | Some i \<Rightarrow>
               (case u of
                  Unit n \<Rightarrow>
                    if name = str n then Inr \<lparr>qvalue = Fin (of_int i), qunit = u\<rparr>
                    else Inl (LibraryError ''DimensionalityError'')))
      | _ \<Rightarrow> Inl (LibraryError ''FormatError''))"

fun plus_float :: "float64 \<Rightarrow> float64 \<Rightarrow> float64" where
  "plus_float (Fin a) (Fin b) = Fin (a + b)"
| "plus_float NaN y = NaN"
| "plus_float x NaN = NaN"
| "plus_float PInf NInf = NaN"
| "plus_float NInf PInf = NaN"
| "plus_float PInf y = PInf"
| "plus_float x PInf = PInf"
| "plus_float NInf y = NInf"
| "plus_float x NInf = NInf"

definition small_library :: units_library where
  "small_library =
     \<lparr>assign_and_check_unit_consistency = read_quantity,
      check_value_object =
        (\<lambda>v u. case v of
                  PNone \<Rightarrow> Inr \<lparr>qvalue = Fin 0, qunit = u\<rparr>
                | PStr s \<Rightarrow> read_quantity s u
                | _ \<Rightarrow> Inl TypeError),
      check_quantity =
        (\<lambda>v u. case v of PNone \<Rightarrow> Inr None | PStr s \<Rightarrow> Inr (Some s) | _ \<Rightarrow> Inl TypeError),
      check_and_assign_bool = (\<lambda>v. case v of PBool b \<Rightarrow> Inr b | _ \<Rightarrow> Inl TypeError),
      quantity_to =
        (\<lambda>q u. if qunit q = u then Inr q else Inl (LibraryError ''UnitConversionError'')),
      quantity_plus =
        (\<lambda>a b. if qunit a = qunit b
                then Inr \<lparr>qvalue = plus_float (qvalue a) (qvalue b), qunit = qunit a\<rparr>
                else Inl (LibraryError ''UnitConversionError'')),
      array_plus =
        (\<lambda>xs q. if aunit xs = qunit q
                 then Inr \<lparr>avalues = map (\<lambda>x. plus_float x (qvalue q)) (avalues xs),
                           aunit = aunit xs\<rparr>
                 else Inl (LibraryError ''UnitConversionError'')),
      ratio_to_ppm = (\<lambda>xs q. Inl (LibraryError ''UnitConversionError'')),
      product_to = (\<lambda>xs q u. Inl (LibraryError ''UnitConversionError''))\<rparr>"

definition gauss :: unit_name where
  "gauss = Unit ''G''"

definition per_gauss :: unit_name where
  "per_gauss = Unit ''1/G''"

definition in_unit :: "real \<Rightarrow> unit_name \<Rightarrow> Quantity" where
  "in_unit r u = \<lparr>qvalue = Fin r, qunit = u\<rparr>"

text \<open>
  A linear dimension of \<open>N\<close> points with increment \<open>1 G\<close> and reference offset \<open>c G\<close>, in
  the state its constructor leaves it.
\<close>

definition example_linear :: "int \<Rightarrow> real \<Rightarrow> DimensionWithLinearSpacing" where
  "example_linear N c =
     \<lparr>reference_offset = in_unit c gauss,
      origin_offset = in_unit 0 gauss,
      quantity = None,
      period = \<lparr>qvalue = PInf, qunit = gauss\<rparr>,
      label = [],
      equivalencies = None,
      unit = gauss,
      number_of_points = N,
      increment = in_unit 1 gauss,
      fft_output_order = False,
      reciprocal =
        \<lparr>reference_offset = in_unit 0 per_gauss,
         origin_offset = in_unit 0 per_gauss,
         quantity = None,
         period = \<lparr>qvalue = PInf, qunit = per_gauss\<rparr>,
         label = [],
         equivalencies = None,
         unit = per_gauss\<rparr>,
      coordinates = \<lparr>avalues = map (\<lambda>j. Fin (of_int j)) (arange 0 N), aunit = gauss\<rparr>\<rparr>"

text \<open>An arbitrarily sampled dimension of five values behind the facade.\<close>

definition example_arbitrary :: gcv_object where
  "example_arbitrary =
     \<lparr>variable_type = arbitrary_type,
      g_number_of_points = 5,
      g_values = [PStr (str ''1 G''), PStr (str ''2 G''), PStr (str ''4 G''),
                  PStr (str ''7 G''), PStr (str ''9 G'')],
      g_coordinates = \<lparr>avalues = [Fin 1, Fin 2, Fin 4, Fin 7, Fin 9], aunit = gauss\<rparr>,
      g_unit = gauss,
      g_origin_offset = in_unit 0 gauss,
      g_period = \<lparr>qvalue = PInf, qunit = gauss\<rparr>,
      g_reciprocal_coordinates = \<lparr>avalues = [], aunit = per_gauss\<rparr>,
      g_reciprocal_reference_offset = in_unit 0 per_gauss,
      g_reciprocal_origin_offset = in_unit 0 per_gauss\<rparr>"

text \<open>A dimension of the non-linear class whose two offsets add up to zero.\<close>

definition example_nonlinear :: nonLinearQuantitative where
  "example_nonlinear =
     \<lparr>s_coordinates = \<lparr>avalues = [Fin 1, Fin 2], aunit = gauss\<rparr>,
      s_absolute_coordinates = \<lparr>avalues = [Fin 1, Fin 2], aunit = gauss\<rparr>,
      s_reference_offset = in_unit 0 gauss,
      s_origin_offset = in_unit 0 gauss,
      s_made_dimensionless = False,
      s_unit = gauss\<rparr>"

section \<open>Properties\<close>

subsection \<open>The exchange with the reciprocal\<close>

lemmas swap_defs =
  swap_def swap_reference_offset_def swap_origin_offset_def swap_period_def
  swap_quantity_def swap_label_def swap_unit_def

text \<open>
  Claim C3. \<open>_swap\<close> exchanges the reference offset, origin offset, period, quantity,
  label and unit of a linear dimension with those of its reciprocal, changes no other
  slot of either object, and applied twice gives back the dimension it started from.
\<close>

theorem C3_swap_exchanges_and_round_trips:
  "reference_offset (swap d) = reference_offset (reciprocal d)
   \<and> reference_offset (reciprocal (swap d)) = reference_offset d
   \<and> origin_offset (swap d) = origin_offset (reciprocal d)
   \<and> origin_offset (reciprocal (swap d)) = origin_offset d
   \<and> period (swap d) = period (reciprocal d)
   \<and> period (reciprocal (swap d)) = period d
   \<and> quantity (swap d) = quantity (reciprocal d)
   \<and> quantity (reciprocal (swap d)) = quantity d
   \<and> label (swap d) = label (reciprocal d)
   \<and> label (reciprocal (swap d)) = label d
   \<and> unit (swap d) = unit (reciprocal d)
   \<and> unit (reciprocal (swap d)) = unit d
   \<and> equivalencies (swap d) = equivalencies d
   \<and> equivalencies (reciprocal (swap d)) = equivalencies (reciprocal d)
   \<and> number_of_points (swap d) = number_of_points d
   \<and> increment (swap d) = increment d
   \<and> fft_output_order (swap d) = fft_output_order d
   \<and> coordinates (swap d) = coordinates d
   \<and> swap (swap d) = d"
  by (cases d, rename_tac ro oo q p l e u n i f r c, case_tac r) (simp add: swap_defs)

subsection \<open>White-space-only strings\<close>

lemma split_from_Nil_iff: "split_from cur s = [] \<longleftrightarrow> cur = [] \<and> list_all is_space s"
  by (induction s arbitrary: cur) auto

lemma strip_whitespace:
  assumes "list_all is_space s"
  shows "strip s = []"
proof -
  from assms have h: "dropWhile is_space s = []"
    by (induction s) auto
  show ?thesis unfolding strip_def h by simp
qed

lemma dropWhile_keeps:
  assumes "\<not> list_all P xs"
  shows "\<not> list_all P (dropWhile P xs)"
proof -
  from assms have ne: "dropWhile P xs \<noteq> []"
    by (simp add: list_all_iff dropWhile_eq_Nil_conv)
  then have "\<not> P (hd (dropWhile P xs))" by (rule hd_dropWhile)
  moreover from ne have "hd (dropWhile P xs) \<in> set (dropWhile P xs)" by simp
  ultimately show ?thesis by (auto simp: list_all_iff)
qed

lemma strip_keeps: "\<not> list_all is_space s \<Longrightarrow> \<not> list_all is_space (strip s)"
proof -
  assume a: "\<not> list_all is_space s"
  have "\<not> list_all is_space (rev (dropWhile is_space s))"
    using dropWhile_keeps [OF a] by (simp add: list_all_iff)
  then have "\<not> list_all is_space (dropWhile is_space (rev (dropWhile is_space s)))"
    by (rule dropWhile_keeps)
  then show ?thesis by (simp add: strip_def list_all_iff)
qed

lemma first_token_IndexError_iff:
  "first_item (split (strip s)) = Inl IndexError \<longleftrightarrow> list_all is_space s"
proof
  assume "first_item (split (strip s)) = Inl IndexError"
  then have "split (strip s) = []"
    by (simp add: first_item_def split: list.splits)
  then have "list_all is_space (strip s)"
    by (simp add: split_def split_from_Nil_iff)
  then show "list_all is_space s" using strip_keeps by blast
next
  assume "list_all is_space s"
  then show "first_item (split (strip s)) = Inl IndexError"
    by (simp add: strip_whitespace split_def first_item_def)
qed

text \<open>
  Claim C10. Assigning an empty or white-space-only string to \<open>period\<close> raises
  \<open>IndexError\<close>, in the setter of the base class and in the setter of the facade of a
  quantitative dimension, and leaves the object as it was: \<open>value.strip().split()\<close> is
  the empty list exactly for these strings, and indexing its first element fails.
\<close>

theorem C10_blank_period_raises_IndexError:
  "(first_item (split (strip s)) = Inl IndexError \<longleftrightarrow> list_all is_space s)
   \<and> (list_all is_space s \<longrightarrow> period_setter lib (PStr s) d = (Some IndexError, d))
   \<and> (list_all is_space s \<and> variable_type g \<in> set quantitative_variable_types \<longrightarrow>
        ControlledVariable_period_setter lib (PStr s) g = (Some IndexError, g))"
  using first_token_IndexError_iff [of s]
  by (auto simp: period_setter_def ControlledVariable_period_setter_def)

theorem C10_blank_period_witness:
  "list_all is_space [32, 9, 10]
   \<and> period_setter small_library (PStr [32, 9, 10]) (example_linear 3 0)
       = (Some IndexError, example_linear 3 0)
   \<and> variable_type example_arbitrary \<in> set quantitative_variable_types
   \<and> ControlledVariable_period_setter small_library (PStr [32, 9, 10]) example_arbitrary
       = (Some IndexError, example_arbitrary)
   \<and> period_setter small_library (PStr []) (example_linear 3 0)
       = (Some IndexError, example_linear 3 0)"
proof -
  have h: "list_all is_space [32, 9, 10]" by (simp add: is_space_def)
  have t: "variable_type example_arbitrary \<in> set quantitative_variable_types"
    by (simp add: example_arbitrary_def quantitative_variable_types_def)
  have e: "list_all is_space []" by simp
  show ?thesis
    using h t
      C10_blank_period_raises_IndexError
        [of "[32, 9, 10]" small_library "example_linear 3 0" example_arbitrary]
      C10_blank_period_raises_IndexError
        [of "[]" small_library "example_linear 3 0" example_arbitrary]
    by simp
qed

subsection \<open>The index array in FFT order\<close>

lemma length_arange: "length (arange a b) = nat (b - a)"
  by (simp add: arange_def)

text \<open>
  For a non-negative \<open>N\<close> both slice assignments fit: the first \<open>n\<close> cells take
  \<open>arange(0, n)\<close>, the remaining \<open>N - n = \<lfloor>N/2\<rfloor>\<close> cells take \<open>arange(-\<lfloor>N/2\<rfloor>, 0)\<close>, and no
  uninitialised cell is left.
\<close>

lemma fft_index_eq:
  assumes "0 \<le> N"
  shows "fft_index N = Inr (arange 0 ((N - 1) div 2 + 1) @ arange (- (N div 2)) 0)"
proof -
  let ?n = "(N - 1) div 2 + 1"
  have n0: "0 \<le> ?n" and nN: "?n \<le> N \<or> N = 0" and rest: "N - ?n = N div 2"
    using assms by presburger+
  have l1: "length (arange 0 ?n) = nat ?n" by (simp add: length_arange)
  have l2: "length (arange (- (N div 2)) 0) = nat (N div 2)" by (simp add: length_arange)
  have b: "slice_bound (nat N) ?n = nat ?n"
    using n0 nN assms by (auto simp: slice_bound_def)
  have s1: "assign_slice (replicate (nat N) 0) None (Some ?n) (arange 0 ?n)
            = Inr (arange 0 ?n @ replicate (nat N - nat ?n) 0)"
    using b l1 by (simp add: assign_slice_def Let_def)
  have len1: "length (arange 0 ?n @ replicate (nat N - nat ?n) 0) = nat N"
    using l1 n0 nN assms by auto
  have k: "nat N - nat ?n = nat (N div 2)"
    using nat_diff_distrib' [OF assms n0] rest by simp
  have s2: "assign_slice (arange 0 ?n @ replicate (nat N - nat ?n) 0) (Some ?n) None
              (arange (- (N div 2)) 0)
            = Inr (arange 0 ?n @ arange (- (N div 2)) 0)"
    unfolding assign_slice_def Let_def len1 using b l1 l2 k by simp
  show ?thesis
    using assms s1 s2 by (simp add: fft_index_def np_empty_def Let_def)
qed

lemma fft_index_negative: "N < 0 \<Longrightarrow> fft_index N = Inl ValueError"
  by (simp add: fft_index_def np_empty_def)

lemma FFT_output_order_setter_True:
  assumes "0 \<le> number_of_points d"
    and "quantity_to lib (increment d) (unit d) = Inr m"
  shows "FFT_output_order_setter lib (PBool True) d =
     (None, d\<lparr>fft_output_order := True,
               coordinates :=
                 \<lparr>avalues = map (\<lambda>j. times_index j (qvalue m))
                              (arange 0 ((number_of_points d - 1) div 2 + 1)
                               @ arange (- (number_of_points d div 2)) 0),
                  aunit = qunit m\<rparr>\<rparr>)"
  using assms by (simp add: FFT_output_order_setter_def get_coordinates_def fft_index_eq)

text \<open>
  Claim C1, as amended. With \<open>fft_output_order\<close> set to true on a linear dimension of
  \<open>N \<ge> 0\<close> points whose increment is \<open>m\<close> in the unit of the dimension, the coordinates
  are the indices \<open>[0, 1, \<dots>, n-1, -\<lfloor>N/2\<rfloor>, \<dots>, -1]\<close> with \<open>n = \<lfloor>(N-1)/2\<rfloor> + 1\<close>, each
  multiplied by \<open>m\<close>; for \<open>N = 10\<close> the indices are \<open>[0,1,2,3,4,-5,-4,-3,-2,-1]\<close> and for
  \<open>N = 5\<close> they are \<open>[0,1,2,-2,-1]\<close>.
\<close>

theorem C1_fft_order_coordinates:
  assumes "0 \<le> number_of_points d"
    and "quantity_to lib (increment d) (unit d) = Inr m"
  shows "fst (FFT_output_order_setter lib (PBool True) d) = None
   \<and> fft_output_order (snd (FFT_output_order_setter lib (PBool True) d)) = True
   \<and> coordinates (snd (FFT_output_order_setter lib (PBool True) d)) =
        \<lparr>avalues = map (\<lambda>j. times_index j (qvalue m))
                     (arange 0 ((number_of_points d - 1) div 2 + 1)
                      @ arange (- (number_of_points d div 2)) 0),
         aunit = qunit m\<rparr>
   \<and> (number_of_points d = 10 \<longrightarrow>
        avalues (coordinates (snd (FFT_output_order_setter lib (PBool True) d))) =
          map (\<lambda>j. times_index j (qvalue m)) [0, 1, 2, 3, 4, -5, -4, -3, -2, -1])
   \<and> (number_of_points d = 5 \<longrightarrow>
        avalues (coordinates (snd (FFT_output_order_setter lib (PBool True) d))) =
          map (\<lambda>j. times_index j (qvalue m)) [0, 1, 2, -2, -1])"
proof -
  have ten: "arange 0 ((10 - 1) div 2 + 1) @ arange (- (10 div 2)) 0
             = [0, 1, 2, 3, 4, -5, -4, -3, -2, -1]"
    by (simp add: arange_def upto_rec1)
  have five: "arange 0 ((5 - 1) div 2 + 1) @ arange (- (5 div 2)) 0 = [0, 1, 2, -2, -1]"
    by (simp add: arange_def upto_rec1)
  show ?thesis
    unfolding FFT_output_order_setter_True [OF assms]
    using ten five by auto
qed

theorem C1_fft_order_witness:
  "0 \<le> number_of_points (example_linear 10 0)
   \<and> quantity_to small_library (increment (example_linear 10 0)) (unit (example_linear 10 0))
       = Inr (in_unit 1 gauss)
   \<and> fst (FFT_output_order_setter small_library (PBool True) (example_linear 10 0)) = None
   \<and> avalues (coordinates (snd (FFT_output_order_setter small_library (PBool True)
                                  (example_linear 10 0))))
       = [Fin 0, Fin 1, Fin 2, Fin 3, Fin 4, Fin (-5), Fin (-4), Fin (-3), Fin (-2), Fin (-1)]
   \<and> 0 \<le> number_of_points (example_linear 5 0)
   \<and> quantity_to small_library (increment (example_linear 5 0)) (unit (example_linear 5 0))
       = Inr (in_unit 1 gauss)
   \<and> avalues (coordinates (snd (FFT_output_order_setter small_library (PBool True)
                                  (example_linear 5 0))))
       = [Fin 0, Fin 1, Fin 2, Fin (-2), Fin (-1)]"
proof -
  have h1: "0 \<le> number_of_points (example_linear 10 0)"
    by (simp add: example_linear_def)
  have h2: "quantity_to small_library (increment (example_linear 10 0))
              (unit (example_linear 10 0)) = Inr (in_unit 1 gauss)"
    by (simp add: example_linear_def small_library_def in_unit_def)
  have n: "number_of_points (example_linear 10 0) = 10"
    by (simp add: example_linear_def)
  have k1: "0 \<le> number_of_points (example_linear 5 0)"
    by (simp add: example_linear_def)
  have k2: "quantity_to small_library (increment (example_linear 5 0))
              (unit (example_linear 5 0)) = Inr (in_unit 1 gauss)"
    by (simp add: example_linear_def small_library_def in_unit_def)
  have m: "number_of_points (example_linear 5 0) = 5"
    by (simp add: example_linear_def)
  show ?thesis
    using h1 h2 n k1 k2 m C1_fft_order_coordinates [OF h1 h2]
      C1_fft_order_coordinates [OF k1 k2]
    by (simp add: in_unit_def arange_def upto_rec1)
qed

text \<open>
  Claim C1, as stated, fails for odd \<open>N\<close>: the sequence of the specification for \<open>N = 5\<close>
  has six entries and starts its negative part at \<open>-3\<close>, the code gives
  \<open>[0,1,2,-2,-1]\<close>.
\<close>

theorem C1_general_formula_counterexample:
  "spec_fft_index 5 = [0, 1, 2, -3, -2, -1]
   \<and> fft_index 5 = Inr [0, 1, 2, -2, -1]
   \<and> avalues (coordinates (snd (FFT_output_order_setter small_library (PBool True)
                                  (example_linear 5 0))))
       = [Fin 0, Fin 1, Fin 2, Fin (-2), Fin (-1)]
   \<and> fft_index 5 \<noteq> Inr (spec_fft_index 5)"
proof -
  have a: "spec_fft_index 5 = [0, 1, 2, -3, -2, -1]"
    by (simp add: spec_fft_index_def arange_def upto_rec1)
  have b: "fft_index 5 = Inr [0, 1, 2, -2, -1]"
    by (simp add: fft_index_eq arange_def upto_rec1)
  have c: "avalues (coordinates (snd (FFT_output_order_setter small_library (PBool True)
                                  (example_linear 5 0))))
       = [Fin 0, Fin 1, Fin 2, Fin (-2), Fin (-1)]"
    by (simp add: FFT_output_order_setter_def get_coordinates_def b example_linear_def
        small_library_def in_unit_def)
  show ?thesis using a b c by simp
qed

subsection \<open>Coordinates and the reference offset\<close>

text \<open>
  The array that \<open>_get_coordinates\<close> stores is \<open>index * increment\<close>: it does not depend
  on the reference offset, and the setter of the offset stores the offset only.
\<close>

lemma get_coordinates_reference_offset:
  "fst (get_coordinates lib (d\<lparr>reference_offset := c\<rparr>)) = fst (get_coordinates lib d)
   \<and> coordinates (snd (get_coordinates lib (d\<lparr>reference_offset := c\<rparr>)))
       = coordinates (snd (get_coordinates lib d))"
  by (simp add: get_coordinates_def split: sum.splits)

lemma reference_offset_setter_coordinates:
  "coordinates (snd (reference_offset_setter lib v d)) = coordinates d"
  by (simp add: reference_offset_setter_def split: pyval.splits sum.splits)

lemma minus_float_shift:
  "minus_float (minus_float x (Fin c)) (Fin \<delta>) = minus_float x (Fin (c + \<delta>))"
  by (cases x) (simp_all add: algebra_simps)

lemma times_index_minus:
  "minus_float (times_index j (Fin m)) (Fin c) = Fin (of_int j * m - c)"
  by simp

lemma cached_coordinates:
  assumes "get_coordinates lib d = (None, d)"
    and "quantity_to lib (increment d) (unit d) = Inr m"
  shows "coordinates d =
           \<lparr>avalues = map (\<lambda>j. times_index j (qvalue m))
                        (if fft_output_order d
                         then arange 0 ((number_of_points d - 1) div 2 + 1)
                              @ arange (- (number_of_points d div 2)) 0
                         else arange 0 (number_of_points d)),
            aunit = qunit m\<rparr>"
proof (cases "fft_output_order d")
  case False
  let ?c = "\<lparr>avalues = map (\<lambda>j. times_index j (qvalue m)) (arange 0 (number_of_points d)),
            aunit = qunit m\<rparr>"
  from assms False have "d\<lparr>coordinates := ?c\<rparr> = d"
    by (simp add: get_coordinates_def)
  then have "coordinates (d\<lparr>coordinates := ?c\<rparr>) = coordinates d" by simp
  then show ?thesis using False by simp
next
  case True
  have n: "0 \<le> number_of_points d"
  proof (rule ccontr)
    assume "\<not> 0 \<le> number_of_points d"
    then have "fft_index (number_of_points d) = Inl ValueError"
      by (simp add: fft_index_negative)
    then show False using assms True by (simp add: get_coordinates_def)
  qed
  let ?c = "\<lparr>avalues = map (\<lambda>j. times_index j (qvalue m))
                        (arange 0 ((number_of_points d - 1) div 2 + 1)
                         @ arange (- (number_of_points d div 2)) 0),
            aunit = qunit m\<rparr>"
  from assms True have "d\<lparr>coordinates := ?c\<rparr> = d"
    by (simp add: get_coordinates_def fft_index_eq [OF n])
  then have "coordinates (d\<lparr>coordinates := ?c\<rparr>) = coordinates d" by simp
  then show ?thesis using True by simp
qed

lemma reference_offset_setter_keeps:
  assumes "reference_offset_setter lib v d = (None, d')"
  shows "number_of_points d' = number_of_points d \<and> increment d' = increment d
     \<and> fft_output_order d' = fft_output_order d \<and> coordinates d' = coordinates d
     \<and> unit d' = unit d"
  using assms
  by (auto simp: reference_offset_setter_def split: pyval.splits sum.splits)

text \<open>
  Claim C2. On a linear dimension whose stored array is up to date, with increment \<open>m\<close>
  and reference offset \<open>c\<close> in the unit of the array, the reference coordinate read for
  the index \<open>j\<close> is \<open>j*m - c\<close>, where the indices are \<open>0, \<dots>, N-1\<close>, or those of the FFT
  order when that order is set. After the reference offset is raised by \<open>\<delta>\<close> the count,
  the increment and the order are as before, and every coordinate read is lower by \<open>\<delta>\<close>.
\<close>

theorem C2_reference_coordinates_shift:
  assumes "get_coordinates lib d = (None, d)"
    and "quantity_to lib (increment d) (unit d) = Inr m" and "qvalue m = Fin mr"
    and "quantity_to lib (reference_offset d) (aunit (coordinates d)) = Inr c"
    and "qvalue c = Fin cr"
    and "reference_offset_setter lib (PStr s) d = (None, d')"
    and "quantity_to lib (reference_offset d') (aunit (coordinates d')) = Inr c'"
    and "qvalue c' = Fin (cr + \<delta>)"
  shows "reference_coordinates lib d =
           Inr \<lparr>avalues = map (\<lambda>j. Fin (of_int j * mr - cr))
                             (if fft_output_order d
                              then arange 0 ((number_of_points d - 1) div 2 + 1)
                                   @ arange (- (number_of_points d div 2)) 0
                              else arange 0 (number_of_points d)),
                aunit = qunit m\<rparr>
   \<and> number_of_points d' = number_of_points d
   \<and> increment d' = increment d
   \<and> fft_output_order d' = fft_output_order d
   \<and> reference_coordinates lib d =
        Inr \<lparr>avalues = map (\<lambda>x. minus_float x (Fin cr)) (avalues (coordinates d)),
             aunit = aunit (coordinates d)\<rparr>
   \<and> reference_coordinates lib d' =
        Inr \<lparr>avalues = map (\<lambda>y. minus_float y (Fin \<delta>))
                         (map (\<lambda>x. minus_float x (Fin cr)) (avalues (coordinates d))),
             aunit = aunit (coordinates d)\<rparr>"
proof -
  note k = reference_offset_setter_keeps [OF assms(6)]
  have r: "reference_coordinates lib d =
        Inr \<lparr>avalues = map (\<lambda>x. minus_float x (Fin cr)) (avalues (coordinates d)),
             aunit = aunit (coordinates d)\<rparr>"
    using assms(4,5) by (simp add: reference_coordinates_def)
  have r': "reference_coordinates lib d' =
        Inr \<lparr>avalues = map (\<lambda>x. minus_float x (Fin (cr + \<delta>))) (avalues (coordinates d)),
             aunit = aunit (coordinates d)\<rparr>"
    using assms(7,8) k by (simp add: reference_coordinates_def)
  have n: "reference_coordinates lib d =
           Inr \<lparr>avalues = map (\<lambda>j. Fin (of_int j * mr - cr))
                             (if fft_output_order d
                              then arange 0 ((number_of_points d - 1) div 2 + 1)
                                   @ arange (- (number_of_points d div 2)) 0
                              else arange 0 (number_of_points d)),
                aunit = qunit m\<rparr>"
    unfolding r cached_coordinates [OF assms(1,2)]
    by (simp add: assms(3))
  have r'': "reference_coordinates lib d' =
        Inr \<lparr>avalues = map (\<lambda>y. minus_float y (Fin \<delta>))
                         (map (\<lambda>x. minus_float x (Fin cr)) (avalues (coordinates d))),
             aunit = aunit (coordinates d)\<rparr>"
    unfolding r' by (simp add: minus_float_shift o_def)
  have k1: "number_of_points d' = number_of_points d" using k by simp
  have k2: "increment d' = increment d" using k by simp
  have k3: "fft_output_order d' = fft_output_order d" using k by simp
  show ?thesis
    by (intro conjI) (fact n, fact k1, fact k2, fact k3, fact r, fact r'')
qed

theorem C2_reference_coordinates_witness:
  "get_coordinates small_library (example_linear 3 1) = (None, example_linear 3 1)
   \<and> quantity_to small_library (increment (example_linear 3 1)) (unit (example_linear 3 1))
       = Inr (in_unit 1 gauss)
   \<and> quantity_to small_library (reference_offset (example_linear 3 1))
        (aunit (coordinates (example_linear 3 1))) = Inr (in_unit 1 gauss)
   \<and> reference_offset_setter small_library (PStr (str ''3 G'')) (example_linear 3 1)
       = (None, (example_linear 3 1)\<lparr>reference_offset := in_unit 3 gauss\<rparr>)
   \<and> reference_coordinates small_library (example_linear 3 1)
       = Inr \<lparr>avalues = [Fin (-1), Fin 0, Fin 1], aunit = gauss\<rparr>
   \<and> reference_coordinates small_library
        ((example_linear 3 1)\<lparr>reference_offset := in_unit 3 gauss\<rparr>)
       = Inr \<lparr>avalues = [Fin (-3), Fin (-2), Fin (-1)], aunit = gauss\<rparr>"
proof -
  let ?d = "example_linear 3 1"
  let ?d' = "(example_linear 3 1)\<lparr>reference_offset := in_unit 3 gauss\<rparr>"
  have h1: "get_coordinates small_library ?d = (None, ?d)"
    by (simp add: get_coordinates_def example_linear_def small_library_def in_unit_def)
  have h2: "quantity_to small_library (increment ?d) (unit ?d) = Inr (in_unit 1 gauss)"
    by (simp add: example_linear_def small_library_def in_unit_def)
  have h3: "qvalue (in_unit 1 gauss) = Fin 1" by (simp add: in_unit_def)
  have h4: "quantity_to small_library (reference_offset ?d) (aunit (coordinates ?d))
              = Inr (in_unit 1 gauss)"
    by (simp add: example_linear_def small_library_def in_unit_def)
  have p: "read_quantity (str ''3 G'') gauss = Inr (in_unit 3 gauss)"
    by (simp add: read_quantity_def str_def strip_def split_def is_space_def
        read_integer_def gauss_def in_unit_def)
  have h6: "reference_offset_setter small_library (PStr (str ''3 G'')) ?d = (None, ?d')"
    using p by (simp add: reference_offset_setter_def small_library_def example_linear_def)
  have h7: "quantity_to small_library (reference_offset ?d') (aunit (coordinates ?d'))
              = Inr (in_unit 3 gauss)"
    by (simp add: example_linear_def small_library_def in_unit_def)
  have h8: "qvalue (in_unit 3 gauss) = Fin (1 + 2)" by (simp add: in_unit_def)
  have cs: "avalues (coordinates ?d) = [Fin 0, Fin 1, Fin 2]"
    "aunit (coordinates ?d) = gauss"
    by (simp_all add: example_linear_def arange_def upto_rec1)
  note t = C2_reference_coordinates_shift [OF h1 h2 h3 h4 h3 h6 h7 h8]
  have t5: "reference_coordinates small_library ?d =
        Inr \<lparr>avalues = map (\<lambda>x. minus_float x (Fin 1)) (avalues (coordinates ?d)),
             aunit = aunit (coordinates ?d)\<rparr>"
    using t by blast
  have t6: "reference_coordinates small_library ?d' =
        Inr \<lparr>avalues = map (\<lambda>y. minus_float y (Fin 2))
                         (map (\<lambda>x. minus_float x (Fin 1)) (avalues (coordinates ?d))),
             aunit = aunit (coordinates ?d)\<rparr>"
    using t by blast
  have a: "reference_coordinates small_library ?d
             = Inr \<lparr>avalues = [Fin (-1), Fin 0, Fin 1], aunit = gauss\<rparr>"
    unfolding t5 by (simp add: cs)
  have b: "reference_coordinates small_library ?d'
             = Inr \<lparr>avalues = [Fin (-3), Fin (-2), Fin (-1)], aunit = gauss\<rparr>"
    unfolding t6 by (simp add: cs)
  show ?thesis using h1 h2 h4 h6 a b by simp
qed

subsection \<open>The increment\<close>

lemma increment_setter_negative:
  assumes "assign_and_check_unit_consistency lib s (unit d) = Inr q"
    and "is_negative (qvalue q)"
  shows "increment_setter lib (PStr s) d = (Some ValueError, d)"
  using assms by (simp add: increment_setter_def)

text \<open>
  Claim C6 holds for a negative increment only. An increment whose value is zero passes
  the test \<open>_value.value < 0.0\<close>: the setter stores it and recomputes the coordinates, so
  no \<open>ValueError\<close> is raised and the stored increment changes.
\<close>

theorem C6_zero_increment_accepted:
  assumes "assign_and_check_unit_consistency lib s (unit d) = Inr q"
    and "is_zero (qvalue q)"
  shows "increment_setter lib (PStr s) d = get_coordinates lib (d\<lparr>increment := q\<rparr>)
   \<and> increment (snd (increment_setter lib (PStr s) d)) = q
   \<and> (quantity_to lib q (unit d) = Inr m \<and> \<not> fft_output_order d \<longrightarrow>
        fst (increment_setter lib (PStr s) d) = None
        \<and> avalues (coordinates (snd (increment_setter lib (PStr s) d)))
            = map (\<lambda>j. times_index j (qvalue m)) (arange 0 (number_of_points d)))"
proof -
  have n: "\<not> is_negative (qvalue q)"
    using assms(2) by (cases "qvalue q") auto
  have e: "increment_setter lib (PStr s) d = get_coordinates lib (d\<lparr>increment := q\<rparr>)"
    using assms(1) n by (simp add: increment_setter_def)
  have i: "increment (snd (get_coordinates lib (d\<lparr>increment := q\<rparr>))) = q"
    by (simp add: get_coordinates_def split: sum.splits)
  have c: "quantity_to lib q (unit d) = Inr m \<and> \<not> fft_output_order d \<longrightarrow>
        fst (get_coordinates lib (d\<lparr>increment := q\<rparr>)) = None
        \<and> avalues (coordinates (snd (get_coordinates lib (d\<lparr>increment := q\<rparr>))))
            = map (\<lambda>j. times_index j (qvalue m)) (arange 0 (number_of_points d))"
    by (simp add: get_coordinates_def)
  show ?thesis unfolding e using i c by simp
qed

theorem C6_zero_increment_witness:
  "assign_and_check_unit_consistency small_library (str ''0 G'') (unit (example_linear 3 0))
     = Inr (in_unit 0 gauss)
   \<and> is_zero (qvalue (in_unit 0 gauss))
   \<and> fst (increment_setter small_library (PStr (str ''0 G'')) (example_linear 3 0)) = None
   \<and> increment (snd (increment_setter small_library (PStr (str ''0 G'')) (example_linear 3 0)))
       = in_unit 0 gauss
   \<and> avalues (coordinates (snd (increment_setter small_library (PStr (str ''0 G''))
                                  (example_linear 3 0))))
       = [Fin 0, Fin 0, Fin 0]"
proof -
  have p: "read_quantity (str ''0 G'') gauss = Inr (in_unit 0 gauss)"
    by (simp add: read_quantity_def str_def strip_def split_def is_space_def
        read_integer_def gauss_def in_unit_def)
  have h1: "assign_and_check_unit_consistency small_library (str ''0 G'')
              (unit (example_linear 3 0)) = Inr (in_unit 0 gauss)"
    using p by (simp add: small_library_def example_linear_def)
  have h2: "is_zero (qvalue (in_unit 0 gauss))"
    by (simp add: in_unit_def)
  have h3: "quantity_to small_library (in_unit 0 gauss) (unit (example_linear 3 0))
              = Inr (in_unit 0 gauss)"
    by (simp add: small_library_def example_linear_def in_unit_def)
  have h4: "\<not> fft_output_order (example_linear 3 0)"
    by (simp add: example_linear_def)
  have n: "arange 0 (number_of_points (example_linear 3 0)) = [0, 1, 2]"
    by (simp add: example_linear_def arange_def upto_rec1)
  let ?r = "increment_setter small_library (PStr (str ''0 G'')) (example_linear 3 0)"
  have t: "increment (snd ?r) = in_unit 0 gauss
     \<and> (quantity_to small_library (in_unit 0 gauss) (unit (example_linear 3 0))
            = Inr (in_unit 0 gauss) \<and> \<not> fft_output_order (example_linear 3 0) \<longrightarrow>
          fst ?r = None
          \<and> avalues (coordinates (snd ?r))
              = map (\<lambda>j. times_index j (qvalue (in_unit 0 gauss)))
                  (arange 0 (number_of_points (example_linear 3 0))))"
    using C6_zero_increment_accepted [OF h1 h2, of "in_unit 0 gauss"] by (rule conjunct2)
  show ?thesis
    using h1 h2 h3 h4 n t by (simp add: in_unit_def)
qed

subsection \<open>The period\<close>

text \<open>The constructor path: \<open>_set_parameters\<close> never leaves a zero period.\<close>

lemma set_parameters_period_not_zero:
  assumes "set_parameters lib ref_off orig_off quant per lbl u = Inr b"
  shows "\<not> is_zero (qvalue (period b))"
  using assms
  by (auto simp: set_parameters_def Let_def split: sum.splits if_splits)

lemma period_setter_sentinel:
  assumes "first_item (split (strip s)) = Inr token"
    and "token \<in> set infinity_sentinels"
  shows "period_setter lib (PStr s) d = (None, d\<lparr>period := \<lparr>qvalue = PInf, qunit = unit d\<rparr>\<rparr>)"
  using assms by (simp add: period_setter_def)

text \<open>
  Claim C7 does not hold of the setter. When the string is not one of the sentinels the
  setter stores what \<open>_check_value_object\<close> returns, without the test for zero that
  \<open>_set_parameters\<close> makes: a quantity string of value zero leaves a zero period.
\<close>

theorem C7_period_setter_keeps_zero:
  assumes "first_item (split (strip s)) = Inr token"
    and "token \<notin> set infinity_sentinels"
    and "check_value_object lib (PStr s) (unit d) = Inr q"
    and "is_zero (qvalue q)"
  shows "period_setter lib (PStr s) d = (None, d\<lparr>period := q\<rparr>)
   \<and> is_zero (qvalue (period (snd (period_setter lib (PStr s) d))))"
  using assms by (simp add: period_setter_def)

theorem C7_period_setter_witness:
  "first_item (split (strip (str ''0 G''))) = Inr (str ''0'')
   \<and> str ''0'' \<notin> set infinity_sentinels
   \<and> check_value_object small_library (PStr (str ''0 G'')) (unit (example_linear 3 0))
       = Inr (in_unit 0 gauss)
   \<and> is_zero (qvalue (in_unit 0 gauss))
   \<and> period (snd (period_setter small_library (PStr (str ''0 G'')) (example_linear 3 0)))
       = \<lparr>qvalue = Fin 0, qunit = gauss\<rparr>"
proof -
  have h1: "first_item (split (strip (str ''0 G''))) = Inr (str ''0'')"
    by (simp add: str_def strip_def split_def is_space_def first_item_def)
  have h2: "str ''0'' \<notin> set infinity_sentinels"
    by (simp add: infinity_sentinels_def str_def)
  have p: "read_quantity (str ''0 G'') gauss = Inr (in_unit 0 gauss)"
    by (simp add: read_quantity_def str_def strip_def split_def is_space_def
        read_integer_def gauss_def in_unit_def)
  have h3: "check_value_object small_library (PStr (str ''0 G'')) (unit (example_linear 3 0))
       = Inr (in_unit 0 gauss)"
    using p by (simp add: small_library_def example_linear_def)
  have h4: "is_zero (qvalue (in_unit 0 gauss))"
    by (simp add: in_unit_def)
  have t: "period_setter small_library (PStr (str ''0 G'')) (example_linear 3 0)
             = (None, (example_linear 3 0)\<lparr>period := in_unit 0 gauss\<rparr>)"
    using C7_period_setter_keeps_zero [OF h1 h2 h3 h4] by (rule conjunct1)
  show ?thesis
    using h1 h2 h3 h4 by (simp add: t) (simp add: in_unit_def)
qed

subsection \<open>Selection of the variant\<close>

text \<open>The branches of the selection that the code takes as the rule says.\<close>

lemma init_labeled:
  assumes "truthy (d ''non_quantitative'')" and "d ''values'' \<noteq> PNone"
  shows "ControlledVariable_init mkN mkA mkL d = mkN d"
  using assms
  by (simp add: ControlledVariable_init_def build_if_def check_non_quantitative_def
      check_quantitative_def check_quantitative_arbitrary_def check_quantitative_linear_def
      split: sum.splits)

lemma init_labeled_without_values:
  assumes "truthy (d ''non_quantitative'')" and "d ''values'' = PNone"
  shows "ControlledVariable_init mkN mkA mkL d = Inl (PyException values_required)"
  using assms
  by (simp add: ControlledVariable_init_def build_if_def check_non_quantitative_def)

lemma init_linear:
  assumes "\<not> truthy (d ''non_quantitative'')"
    and "d ''number_of_points'' \<noteq> PNone" and "d ''sampling_interval'' \<noteq> PNone"
    and "d ''values'' = PNone"
  shows "ControlledVariable_init mkN mkA mkL d = mkL d"
  using assms
  by (simp add: ControlledVariable_init_def build_if_def check_non_quantitative_def
      check_quantitative_def check_quantitative_arbitrary_def check_quantitative_linear_def
      split: sum.splits)

lemma init_arbitrary:
  assumes "\<not> truthy (d ''non_quantitative'')"
    and "d ''number_of_points'' = PNone \<or> d ''sampling_interval'' = PNone"
    and "d ''values'' \<noteq> PNone"
  shows "ControlledVariable_init mkN mkA mkL d = mkA d"
  using assms
  by (auto simp: ControlledVariable_init_def build_if_def check_non_quantitative_def
      check_quantitative_def check_quantitative_arbitrary_def check_quantitative_linear_def
      split: sum.splits)

lemma init_nothing_given:
  assumes "\<not> truthy (d ''non_quantitative'')"
    and "d ''number_of_points'' = PNone" and "d ''sampling_interval'' = PNone"
    and "d ''values'' = PNone"
  shows "ControlledVariable_init mkN mkA mkL d = Inl (PyException either_required)"
  using assms
  by (simp add: ControlledVariable_init_def build_if_def check_non_quantitative_def
      check_quantitative_def check_quantitative_arbitrary_def)

text \<open>
  With all three of count, increment and values given, the constructor of the arbitrary
  variant runs first and the linear one after it: a linear dimension is built only if
  the arbitrary constructor does not raise.
\<close>

lemma init_linear_and_values:
  assumes "\<not> truthy (d ''non_quantitative'')"
    and "d ''number_of_points'' \<noteq> PNone" and "d ''sampling_interval'' \<noteq> PNone"
    and "d ''values'' \<noteq> PNone"
  shows "ControlledVariable_init mkN mkA mkL d =
           (case mkA d of Inl e \<Rightarrow> Inl e | Inr g \<Rightarrow> mkL d)"
  using assms
  by (simp add: ControlledVariable_init_def build_if_def check_non_quantitative_def
      check_quantitative_def check_quantitative_arbitrary_def check_quantitative_linear_def
      split: sum.splits)

text \<open>
  Claim C4 does not hold of the code in its last case. With only the count given (or
  only the increment) and no values, \<open>_check_quantitative\<close> does not raise, because not
  all three keys are missing; none of the three constructors runs and the constructor
  of the facade ends in \<open>UnboundLocalError\<close>, not in the error that says that either
  count and increment or values are required.
\<close>

theorem C4_count_alone_is_UnboundLocalError:
  "ControlledVariable_init mkN mkA mkL (default_dictionary(''number_of_points'' := PInt 10))
     = Inl UnboundLocalError
   \<and> ControlledVariable_init mkN mkA mkL
        (default_dictionary(''sampling_interval'' := PStr (str ''1 G'')))
     = Inl UnboundLocalError
   \<and> ControlledVariable_init mkN mkA mkL default_dictionary
     = Inl (PyException either_required)"
  by (simp add: ControlledVariable_init_def build_if_def check_non_quantitative_def
      check_quantitative_def check_quantitative_arbitrary_def check_quantitative_linear_def
      default_dictionary_def)

subsection \<open>Accessors of the reciprocal\<close>

lemma arbitrary_not_in_linear: "\<not> is_substring arbitrary_type linear_type"
  by (simp add: arbitrary_type_def linear_type_def)

lemma linear_in_linear: "is_substring linear_type linear_type"
  by (simp add: linear_type_def)

text \<open>
  Claim C9. On a quantitative dimension \<open>reciprocal_coordinates\<close> returns a value when the
  dimension is linearly sampled and raises \<open>AttributeError\<close> when it is arbitrarily
  sampled, because its test compares with the first entry of the list of quantitative
  types only; \<open>absolute_coordinates\<close>, \<open>reciprocal_reference_offset\<close> and
  \<open>reciprocal_origin_offset\<close> pass their test for both variants.
\<close>

theorem C9_reciprocal_coordinates_linear_only:
  assumes "variable_type g \<in> set quantitative_variable_types"
  shows "(variable_type g = arbitrary_type \<longrightarrow> reciprocal_coordinates g = Inl AttributeError)
   \<and> (variable_type g = linear_type \<longrightarrow>
         reciprocal_coordinates g = Inr (g_reciprocal_coordinates g))
   \<and> ((\<exists>v. reciprocal_coordinates g = Inr v) \<longleftrightarrow> variable_type g = linear_type)
   \<and> absolute_coordinates lib g =
        (case quantity_to lib (g_origin_offset g) (g_unit g) of
           Inl e \<Rightarrow> Inl e
         | Inr off \<Rightarrow> array_plus lib (g_coordinates g) off)
   \<and> reciprocal_reference_offset g = Inr (g_reciprocal_reference_offset g)
   \<and> reciprocal_origin_offset g = Inr (g_reciprocal_origin_offset g)"
proof -
  from assms have "variable_type g = linear_type \<or> variable_type g = arbitrary_type"
    by (simp add: quantitative_variable_types_def)
  then show ?thesis
  proof
    assume l: "variable_type g = linear_type"
    have "linear_type \<noteq> arbitrary_type"
      by (simp add: arbitrary_type_def linear_type_def)
    then show ?thesis
      using l assms linear_in_linear
      by (simp add: reciprocal_coordinates_def absolute_coordinates_def
          reciprocal_reference_offset_def reciprocal_origin_offset_def)
  next
    assume a: "variable_type g = arbitrary_type"
    have "arbitrary_type \<noteq> linear_type"
      by (simp add: arbitrary_type_def linear_type_def)
    then show ?thesis
      using a assms arbitrary_not_in_linear
      by (simp add: reciprocal_coordinates_def absolute_coordinates_def
          reciprocal_reference_offset_def reciprocal_origin_offset_def)
  qed
qed

theorem C9_reciprocal_coordinates_witness:
  "variable_type example_arbitrary \<in> set quantitative_variable_types
   \<and> reciprocal_coordinates example_arbitrary = Inl AttributeError
   \<and> absolute_coordinates small_library example_arbitrary
       = Inr \<lparr>avalues = [Fin 1, Fin 2, Fin 4, Fin 7, Fin 9], aunit = gauss\<rparr>
   \<and> reciprocal_reference_offset example_arbitrary = Inr (in_unit 0 per_gauss)
   \<and> reciprocal_origin_offset example_arbitrary = Inr (in_unit 0 per_gauss)
   \<and> variable_type (example_arbitrary\<lparr>variable_type := linear_type\<rparr>)
       \<in> set quantitative_variable_types
   \<and> reciprocal_coordinates (example_arbitrary\<lparr>variable_type := linear_type\<rparr>)
       = Inr \<lparr>avalues = [], aunit = per_gauss\<rparr>"
proof -
  have h: "variable_type example_arbitrary \<in> set quantitative_variable_types"
    by (simp add: example_arbitrary_def quantitative_variable_types_def)
  have a: "variable_type example_arbitrary = arbitrary_type"
    by (simp add: example_arbitrary_def)
  have q: "quantity_to small_library (g_origin_offset example_arbitrary)
             (g_unit example_arbitrary) = Inr (in_unit 0 gauss)"
    by (simp add: small_library_def example_arbitrary_def in_unit_def)
  have p: "array_plus small_library (g_coordinates example_arbitrary) (in_unit 0 gauss)
             = Inr \<lparr>avalues = [Fin 1, Fin 2, Fin 4, Fin 7, Fin 9], aunit = gauss\<rparr>"
    by (simp add: small_library_def example_arbitrary_def in_unit_def)
  have r: "g_reciprocal_reference_offset example_arbitrary = in_unit 0 per_gauss"
    "g_reciprocal_origin_offset example_arbitrary = in_unit 0 per_gauss"
    "g_reciprocal_coordinates example_arbitrary = \<lparr>avalues = [], aunit = per_gauss\<rparr>"
    by (simp_all add: example_arbitrary_def)
  have h': "variable_type (example_arbitrary\<lparr>variable_type := linear_type\<rparr>)
              \<in> set quantitative_variable_types"
    by (simp add: quantitative_variable_types_def)
  have l: "reciprocal_coordinates (example_arbitrary\<lparr>variable_type := linear_type\<rparr>)
             = Inr \<lparr>avalues = [], aunit = per_gauss\<rparr>"
    using C9_reciprocal_coordinates_linear_only [OF h', of small_library] by (simp add: r)
  show ?thesis
    using h h' l a C9_reciprocal_coordinates_linear_only [OF h, of small_library]
    by (simp add: q p r)
qed

subsection \<open>Lowering and raising the number of points\<close>

text \<open>
  Claim C5. On an arbitrarily sampled or labeled dimension whose count is the number \<open>k\<close>
  of its stored values, assigning \<open>v\<close> with \<open>1 \<le> v < k\<close> issues the truncation warning and
  leaves the first \<open>v\<close> values as the stored values, with count \<open>v\<close>; assigning \<open>v > k\<close>
  raises \<open>ValueError\<close> and leaves the dimension unchanged.
\<close>

theorem C5_count_lowered_values_truncated:
  assumes "variable_type g \<noteq> linear_type"
    and "g_number_of_points g = int (length (g_values g))"
  shows "(1 \<le> v \<and> v < int (length (g_values g)) \<longrightarrow>
            fst (number_of_points_setter recompute (PInt v) g) = None
            \<and> fst (snd (number_of_points_setter recompute (PInt v) g))
                = [CoordinatesTruncated (int (length (g_values g))) v]
            \<and> values_getter (snd (snd (number_of_points_setter recompute (PInt v) g)))
                = Inr (take (nat v) (g_values g))
            \<and> g_number_of_points (snd (snd (number_of_points_setter recompute (PInt v) g)))
                = v)
   \<and> (v > int (length (g_values g)) \<longrightarrow>
            number_of_points_setter recompute (PInt v) g = (Some ValueError, [], g))"
  using assms
  by (auto simp: number_of_points_setter_def values_getter_def set_number_of_points_def)

theorem C5_count_lowered_witness:
  "variable_type example_arbitrary \<noteq> linear_type
   \<and> g_number_of_points example_arbitrary = int (length (g_values example_arbitrary))
   \<and> fst (number_of_points_setter (Pair None) (PInt 3) example_arbitrary) = None
   \<and> fst (snd (number_of_points_setter (Pair None) (PInt 3) example_arbitrary))
       = [CoordinatesTruncated 5 3]
   \<and> values_getter (snd (snd (number_of_points_setter (Pair None) (PInt 3) example_arbitrary)))
       = Inr [PStr (str ''1 G''), PStr (str ''2 G''), PStr (str ''4 G'')]
   \<and> number_of_points_setter (Pair None) (PInt 6) example_arbitrary =
       (Some ValueError, [], example_arbitrary)"
proof -
  have h1: "variable_type example_arbitrary \<noteq> linear_type"
    by (simp add: example_arbitrary_def arbitrary_type_def linear_type_def)
  have h2: "g_number_of_points example_arbitrary = int (length (g_values example_arbitrary))"
    by (simp add: example_arbitrary_def)
  have k: "int (length (g_values example_arbitrary)) = 5"
    by (simp add: example_arbitrary_def)
  have t: "take 3 (g_values example_arbitrary)
             = [PStr (str ''1 G''), PStr (str ''2 G''), PStr (str ''4 G'')]"
    by (simp add: example_arbitrary_def)
  show ?thesis
    using h1 h2 C5_count_lowered_values_truncated [OF h1 h2, of 3 "Pair None"]
      C5_count_lowered_values_truncated [OF h1 h2, of 6 "Pair None"]
    by (simp add: k t)
qed

subsection \<open>Conditions that are not raised\<close>

text \<open>
  Claim C8 does not hold of the code: not every mutation that meets an invalid value
  raises. Assigning the increment \<open>0 G\<close> to a linear dimension of five points raises
  nothing; the zero increment is stored and every coordinate becomes zero.
\<close>

theorem C8_zero_increment_raises_nothing:
  "fst (increment_setter small_library (PStr (str ''0 G'')) (example_linear 5 0)) = None
   \<and> increment (snd (increment_setter small_library (PStr (str ''0 G'')) (example_linear 5 0)))
       = in_unit 0 gauss
   \<and> coordinates (snd (increment_setter small_library (PStr (str ''0 G''))
                         (example_linear 5 0)))
       = \<lparr>avalues = [Fin 0, Fin 0, Fin 0, Fin 0, Fin 0], aunit = gauss\<rparr>
   \<and> avalues (coordinates (example_linear 5 0)) = [Fin 0, Fin 1, Fin 2, Fin 3, Fin 4]"
proof -
  have p: "read_quantity (str ''0 G'') gauss = Inr (in_unit 0 gauss)"
    by (simp add: read_quantity_def str_def strip_def split_def is_space_def
        read_integer_def gauss_def in_unit_def)
  have a: "assign_and_check_unit_consistency small_library (str ''0 G'')
             (unit (example_linear 5 0)) = Inr (in_unit 0 gauss)"
    using p by (simp add: small_library_def example_linear_def)
  have q: "quantity_to small_library (in_unit 0 gauss) gauss = Inr (in_unit 0 gauss)"
    by (simp add: small_library_def in_unit_def)
  have n: "arange 0 5 = [0, 1, 2, 3, 4]"
    by (simp add: arange_def upto_rec1)
  have u: "unit (example_linear 5 0) = gauss" "\<not> fft_output_order (example_linear 5 0)"
    "number_of_points (example_linear 5 0) = 5"
    by (simp_all add: example_linear_def)
  have r: "increment_setter small_library (PStr (str ''0 G'')) (example_linear 5 0)
     = (None, (example_linear 5 0)
          \<lparr>increment := in_unit 0 gauss,
            coordinates := \<lparr>avalues = [Fin 0, Fin 0, Fin 0, Fin 0, Fin 0], aunit = gauss\<rparr>\<rparr>)"
    using a q u n by (simp add: increment_setter_def get_coordinates_def in_unit_def)
  have c: "avalues (coordinates (example_linear 5 0)) = [Fin 0, Fin 1, Fin 2, Fin 3, Fin 4]"
    using n by (simp add: example_linear_def)
  show ?thesis using c by (simp add: r)
qed

subsection \<open>The zero denominator of the dimensionless conversion\<close>

lemma setattr_slot:
  "name \<in> set slots \<Longrightarrow> setattr fset name v s = (Some AttributeError, [], s)"
  by (simp add: setattr_def)

lemma setattr_read_only:
  "name \<notin> set settable_properties \<Longrightarrow> setattr fset name v s = (Some AttributeError, [], s)"
  by (simp add: setattr_def)

lemma setattr_property:
  "name \<in> set settable_properties \<Longrightarrow> setattr fset name v s = fset name v s"
  by (auto simp: setattr_def settable_properties_def slots_def class_attributes_def)

lemma made_dimensionless_is_slot: "''_made_dimensionless'' \<in> set slots"
  by (simp add: slots_def)

text \<open>
  The branch of the zero denominator is written to restore the flag, print a line and
  carry on. As it is written, the assignment that restores the flag names a slot and is
  refused by \<open>__setattr__\<close>: the setter ends in \<open>AttributeError\<close>, the line is never
  printed and the flag stored before the conversion stays.
\<close>

lemma made_dimensionless_zero_denominator:
  assumes "check_and_assign_bool lib v = Inr b"
    and "quantity_plus lib (s_origin_offset s) (s_reference_offset s) = Inr denominator"
    and "is_zero (qvalue denominator)"
  shows "made_dimensionless_setter lib fset v s
           = (Some AttributeError, [], s\<lparr>s_made_dimensionless := b\<rparr>)"
  using assms setattr_slot [OF made_dimensionless_is_slot]
  by (simp add: made_dimensionless_setter_def dimensionlessConversion_def)

lemma made_dimensionless_setter_never_prints:
  "fst (snd (made_dimensionless_setter lib fset v s)) = []"
  using setattr_slot [OF made_dimensionless_is_slot]
  by (simp add: made_dimensionless_setter_def dimensionlessConversion_def Let_def
      split: sum.splits)

lemma made_dimensionless_setter_propagates:
  "check_and_assign_bool lib v = Inl e \<Longrightarrow>
     made_dimensionless_setter lib fset v s = (Some e, [], s)"
  "check_and_assign_bool lib v = Inr b \<Longrightarrow>
   quantity_plus lib (s_origin_offset s) (s_reference_offset s) = Inl e \<Longrightarrow>
     made_dimensionless_setter lib fset v s = (Some e, [], s\<lparr>s_made_dimensionless := b\<rparr>)"
  by (simp_all add: made_dimensionless_setter_def dimensionlessConversion_def)

lemma made_dimensionless_example:
  "made_dimensionless_setter small_library fset (PBool True) example_nonlinear
     = (Some AttributeError, [], example_nonlinear\<lparr>s_made_dimensionless := True\<rparr>)"
proof -
  have h1: "check_and_assign_bool small_library (PBool True) = Inr True"
    by (simp add: small_library_def)
  have h2: "quantity_plus small_library (s_origin_offset example_nonlinear)
        (s_reference_offset example_nonlinear) = Inr (in_unit 0 gauss)"
    by (simp add: small_library_def example_nonlinear_def in_unit_def)
  have h3: "is_zero (qvalue (in_unit 0 gauss))"
    by (simp add: in_unit_def)
  show ?thesis by (rule made_dimensionless_zero_denominator [OF h1 h2 h3])
qed

end
